theory Spec2Isabelle
  imports Complex_Main
begin

section \<open>Data model\<close>

text \<open>
  A valid JavaScript \<open>Date\<close> is modelled by its time value: the number of
  milliseconds since the epoch, an integer of absolute value at most 8.64e15. An
  invalid \<open>Date\<close> (time value NaN) is \<open>None\<close> where one can arise. Numbers are
  rationals: every number the engine computes with here (capacities, tyre counts,
  durations that are whole hours or half an hour, time values) is exact in a double.
  A JavaScript string is the list of its UTF-16 code units (numbers from 0 to 65535),
  so that its length, the characters \<open>trim\<close> strips and the characters a regular
  expression matches are those of the source. The messages of the answers are constants and are kept as
  Isabelle strings. A MongoDB \<open>ObjectId\<close> is an opaque natural number.
\<close>

type_synonym instant = int
type_synonym oid = nat
type_synonym jstring = "int list"

text \<open>The JavaScript string of a literal.\<close>

definition js :: "string \<Rightarrow> jstring" where
  "js s = map of_char s"

datatype status = Confirmed | InProgress | Completed | Cancelled

record vehicle =
  v_id :: oid
  name :: jstring
  capacityKg :: rat
  tyres :: rat
  isActive :: bool

record booking =
  b_id :: oid
  vehicleId :: oid
  customerId :: jstring
  fromPincode :: jstring
  toPincode :: jstring
  startTime :: instant
  endTime :: instant
  estimatedRideDurationHours :: rat
  status :: status

text \<open>
  The database: the two collections, in insertion order, and the source of fresh
  object identifiers.
\<close>

record db =
  vehicles :: "vehicle list"
  bookings :: "booking list"
  next_id :: oid

text \<open>
  The outcomes of a request that is not a success, by HTTP status: 400 (with the
  message, or the list of the schema validators' messages), 404, 409 (with the
  conflicting bookings, the route of each as the pair of its pincodes) and 500.
\<close>

record conflict_info =
  c_id :: oid
  c_startTime :: instant
  c_endTime :: instant
  c_route :: "jstring \<times> jstring"

datatype error =
  ValidationError "string list"
  | NotFoundError string
  | ConflictError "conflict_info list"
  | InternalError string

text \<open>
  A field of a request that the handler parses: missing (absent or empty, so that
  \<open>!field\<close> holds), present but rejected by the parser (\<open>ObjectId.isValid\<close> is
  false, \<open>parseFloat\<close> gives NaN, \<open>new Date\<close> gives an invalid date), or present
  with the parsed value (for a start time, the time value of the valid date).
\<close>

datatype 'a field = Missing | Malformed | Parsed 'a

text \<open>A value of a JSON request body; a field that is absent is \<open>None\<close>.\<close>

datatype json = JNull | JBool bool | JNum rat | JStr jstring | JObject

fun truthy :: "json option \<Rightarrow> bool" where
  "truthy None = False"
| "truthy (Some JNull) = False"
| "truthy (Some (JBool b)) = b"
| "truthy (Some (JNum n)) = (n \<noteq> 0)"
| "truthy (Some (JStr s)) = (s \<noteq> [])"
| "truthy (Some JObject) = True"

section \<open>Ride calculations (utils/rideCalculations.js)\<close>

definition is_digit :: "int \<Rightarrow> bool" where
  "is_digit c = (48 \<le> c \<and> c \<le> 57)"

text \<open>The regular expression \<open>/^\d{6}$/\<close>: exactly six decimal digits.\<close>

definition is_pincode :: "jstring \<Rightarrow> bool" where
  "is_pincode s = (length s = 6 \<and> list_all is_digit s)"

text \<open>\<open>!s\<close> for an optional string: absent, or the empty string.\<close>

fun falsy :: "jstring option \<Rightarrow> bool" where
  "falsy None = True"
| "falsy (Some s) = (s = [])"

text \<open>
  \<open>parseInt\<close> on a string of decimal digits (the only strings it is called on,
  after the regular expression has matched): the number in base ten.
\<close>

definition parseInt :: "jstring \<Rightarrow> int" where
  "parseInt s = foldl (\<lambda>n c. 10 * n + (c - 48)) 0 s"

fun calculateRideDuration :: "jstring option \<Rightarrow> jstring option \<Rightarrow> string + rat" where
  "calculateRideDuration (Some fromP) (Some toP) =
     (if fromP = [] \<or> toP = [] then Inl ''Both from and to pincodes are required''
      else if \<not> is_pincode fromP \<or> \<not> is_pincode toP
        then Inl ''Pincodes must be exactly 6 digits''
      else
        let fromNum = parseInt fromP;
            toNum = parseInt toP;
            duration = \<bar>toNum - fromNum\<bar> mod 24
        in Inr (max (of_int duration) (1 / 2)))"
| "calculateRideDuration _ _ = Inl ''Both from and to pincodes are required''"

definition doTimeRangesOverlap :: "instant \<Rightarrow> instant \<Rightarrow> instant \<Rightarrow> instant \<Rightarrow> bool" where
  "doTimeRangesOverlap start1 end1 start2 end2 = (start1 < end2 \<and> start2 < end1)"

text \<open>
  \<open>new Date(x)\<close> for a number: beyond 8.64e15 milliseconds on either side of the
  epoch the date is invalid; otherwise the fraction is cut off, towards zero.
\<close>

definition timeClip :: "rat \<Rightarrow> instant option" where
  "timeClip x =
     (if \<bar>x\<bar> > 8640000000000000 then None
      else Some (if 0 \<le> x then \<lfloor>x\<rfloor> else \<lceil>x\<rceil>))"

definition calculateEndTime :: "instant \<Rightarrow> rat \<Rightarrow> instant option" where
  "calculateEndTime startT durationHours =
     timeClip (of_int startT + durationHours * 60 * 60 * 1000)"

record time_validation =
  isValid :: bool
  message :: string

text \<open>The clock, read by \<open>new Date()\<close>, is the first argument.\<close>

definition validateBookingTime :: "instant \<Rightarrow> instant \<Rightarrow> time_validation" where
  "validateBookingTime now startT =
     (let maxAdvanceBooking = now + 365 * 24 * 60 * 60 * 1000 in
      if startT \<le> now
        then \<lparr>isValid = False, message = ''Start time must be in the future''\<rparr>
      else if startT > maxAdvanceBooking
        then \<lparr>isValid = False, message = ''Cannot book more than 1 year in advance''\<rparr>
      else \<lparr>isValid = True, message = ''Valid booking time''\<rparr>)"

section \<open>The vehicle model (models/Vehicle.js) and POST /api/vehicles\<close>

text \<open>
  \<open>String.prototype.trim\<close> strips white space and line terminators from both
  ends: tab, line feed, vertical tab, form feed, carriage return, space, no-break
  space, the space separators U+1680, U+2000 to U+200A, U+202F, U+205F and U+3000,
  the line and paragraph separators U+2028 and U+2029, and U+FEFF.
\<close>

definition is_space :: "int \<Rightarrow> bool" where
  "is_space c =
     ((9 \<le> c \<and> c \<le> 13) \<or> c = 32 \<or> c = 160 \<or> c = 5760 \<or> (8192 \<le> c \<and> c \<le> 8202) \<or>
      c = 8232 \<or> c = 8233 \<or> c = 8239 \<or> c = 8287 \<or> c = 12288 \<or> c = 65279)"

definition trim :: "jstring \<Rightarrow> jstring" where
  "trim s = rev (dropWhile is_space (rev (dropWhile is_space s)))"

text \<open>
  The validators of the vehicle schema, run by \<open>save\<close>; the result is the list of
  the messages of those that fail, empty when the document is valid.
\<close>

definition vehicle_validators :: "vehicle \<Rightarrow> string list" where
  "vehicle_validators v =
     (if name v = [] then [''Vehicle name is required'']
      else if length (name v) > 100 then [''Vehicle name cannot exceed 100 characters'']
      else []) @
     (if capacityKg v < 1 then [''Capacity must be at least 1 kg'']
      else if capacityKg v > 50000 then [''Capacity cannot exceed 50,000 kg'']
      else []) @
     (if tyres v < 2 then [''Vehicle must have at least 2 tyres'']
      else if tyres v > 18 then [''Vehicle cannot have more than 18 tyres'']
      else [])"

text \<open>
  \<open>new Vehicle({name: name.trim(), capacityKg, tyres})\<close> followed by \<open>save\<close>:
  the schema trims the name, \<open>isActive\<close> defaults to true.
\<close>

definition save_vehicle :: "db \<Rightarrow> jstring \<Rightarrow> rat \<Rightarrow> rat \<Rightarrow> (error + vehicle) \<times> db" where
  "save_vehicle d n c t =
     (let v = \<lparr>v_id = next_id d, name = trim n, capacityKg = c, tyres = t, isActive = True\<rparr>
      in if vehicle_validators v = []
         then (Inr v, d\<lparr>vehicles := vehicles d @ [v], next_id := Suc (next_id d)\<rparr>)
         else (Inl (ValidationError (vehicle_validators v)), d))"

fun post_vehicles :: "db \<Rightarrow> json option \<Rightarrow> json option \<Rightarrow> json option \<Rightarrow> (error + vehicle) \<times> db" where
  "post_vehicles d nameF capacityF tyresF =
     (if \<not> truthy nameF \<or> \<not> truthy capacityF \<or> \<not> truthy tyresF
        then (Inl (ValidationError [''Name, capacityKg, and tyres are required fields'']), d)
      else case (nameF, capacityF, tyresF) of
        (Some (JStr n), Some (JNum c), Some (JNum t)) \<Rightarrow> save_vehicle d (trim n) c t
      | _ \<Rightarrow> (Inl (ValidationError
          [''Invalid data types: name must be string, capacityKg and tyres must be numbers'']), d))"

section \<open>The booking model (models/Booking.js)\<close>

text \<open>
  The validators of the booking schema, run by \<open>save\<close> with the clock at that
  moment.
\<close>

definition pincode_validator :: "string \<Rightarrow> jstring \<Rightarrow> string list" where
  "pincode_validator required p =
     (if p = [] then [required]
      else if \<not> is_pincode p then [''Pincode must be exactly 6 digits'']
      else [])"

definition booking_validators :: "instant \<Rightarrow> booking \<Rightarrow> string list" where
  "booking_validators now b =
     (if customerId b = [] then [''Customer ID is required''] else []) @
     pincode_validator ''From pincode is required'' (fromPincode b) @
     pincode_validator ''To pincode is required'' (toPincode b) @
     (if \<not> startTime b > now then [''Start time must be in the future''] else []) @
     (if estimatedRideDurationHours b < 1 / 10
        then [''Ride duration must be at least 0.1 hours''] else [])"

text \<open>
  The pre-save hook recomputes the end time from the start time and the duration. It
  builds the same date as the handler has built before the save; the hook is modelled
  where that date is valid, and leaves the document alone otherwise.
\<close>

definition pre_save :: "booking \<Rightarrow> booking" where
  "pre_save b =
     (if estimatedRideDurationHours b \<noteq> 0
      then (case timeClip (of_int (startTime b) + estimatedRideDurationHours b * 60 * 60 * 1000) of
              Some e \<Rightarrow> b\<lparr>endTime := e\<rparr>
            | None \<Rightarrow> b)
      else b)"

section \<open>POST /api/bookings (routes/bookings.js)\<close>

text \<open>
  The body of a booking request. The customer identifier is any JSON value. The
  pincodes are strings or absent (the regular expression, \<open>parseInt\<close> and the
  schema all turn a pincode given as a number into its decimal string). The vehicle
  identifier and the start time are given by what \<open>ObjectId.isValid\<close> and
  \<open>new Date\<close> make of them. In the handlers below \<open>the\<close> is applied only to a
  field that the first check has found present.
\<close>

record booking_request =
  req_vehicleId :: "oid field"
  req_fromPincode :: "jstring option"
  req_toPincode :: "jstring option"
  req_startTime :: "instant field"
  req_customerId :: "json option"

fun is_missing :: "'a field \<Rightarrow> bool" where
  "is_missing Missing = True"
| "is_missing _ = False"

text \<open>\<open>Vehicle.findOne({_id: vehicleId, isActive: true})\<close>\<close>

definition find_active_vehicle :: "db \<Rightarrow> oid \<Rightarrow> vehicle option" where
  "find_active_vehicle d i = find (\<lambda>v. v_id v = i \<and> isActive v) (vehicles d)"

text \<open>The statuses \<open>{$in: ['confirmed', 'in-progress']}\<close>.\<close>

fun occupying :: "status \<Rightarrow> bool" where
  "occupying Confirmed = True"
| "occupying InProgress = True"
| "occupying Completed = False"
| "occupying Cancelled = False"

text \<open>
  The filter of the overlap query, the same in both routes: the vehicle, an
  occupying status, \<open>startTime < end\<close> and \<open>endTime > start\<close>. Mongoose refuses
  to cast an invalid date in a filter, so the query runs only with valid dates.
\<close>

definition overlap_query :: "oid \<Rightarrow> instant \<Rightarrow> instant \<Rightarrow> booking \<Rightarrow> bool" where
  "overlap_query vid startT endT b =
     (vehicleId b = vid \<and> occupying (status b) \<and> startTime b < endT \<and> endTime b > startT)"

definition conflict_of :: "booking \<Rightarrow> conflict_info" where
  "conflict_of b = \<lparr>c_id = b_id b, c_startTime = startTime b, c_endTime = endTime b,
     c_route = (fromPincode b, toPincode b)\<rparr>"

text \<open>
  The checks of the handler before it calls the duration estimator (lines 15 to 66),
  in the order of the source; when they pass, the handler holds the vehicle
  identifier and the start time.
\<close>

definition validate_booking_request ::
    "instant \<Rightarrow> db \<Rightarrow> booking_request \<Rightarrow> error + oid \<times> instant" where
  "validate_booking_request now d req =
     (if is_missing (req_vehicleId req) \<or> falsy (req_fromPincode req) \<or> falsy (req_toPincode req)
         \<or> is_missing (req_startTime req) \<or> \<not> truthy (req_customerId req)
        then Inl (ValidationError
          [''vehicleId, fromPincode, toPincode, startTime, and customerId are required''])
      else case req_vehicleId req of
        Parsed vid \<Rightarrow>
          if \<not> is_pincode (the (req_fromPincode req)) \<or> \<not> is_pincode (the (req_toPincode req))
            then Inl (ValidationError [''Pincodes must be exactly 6 digits''])
          else (case req_startTime req of
            Parsed bookingStartTime \<Rightarrow>
              let timeValidation = validateBookingTime now bookingStartTime in
              if \<not> isValid timeValidation
                then Inl (ValidationError [message timeValidation])
              else (case find_active_vehicle d vid of
                None \<Rightarrow> Inl (NotFoundError ''Vehicle not found or inactive'')
              | Some v \<Rightarrow> Inr (vid, bookingStartTime))
          | _ \<Rightarrow> Inl (ValidationError
              [''Invalid startTime format. Use ISO date format (e.g., 2023-10-27T10:00:00Z)'']))
      | _ \<Rightarrow> Inl (ValidationError [''Invalid vehicleId format'']))"

text \<open>
  What the handler holds once its checks and the overlap query are through, just
  before it builds the document.
\<close>

record booking_plan =
  p_vehicleId :: oid
  p_customerId :: json
  p_fromPincode :: jstring
  p_toPincode :: jstring
  p_startTime :: instant
  p_endTime :: instant
  p_duration :: rat

text \<open>
  The handler up to and including the overlap query (lines 15 to 103): the checks,
  the call of the estimator (line 69), the end time (line 70) and the query (line 78).
  An exception of \<open>calculateRideDuration\<close> reaches the outer \<open>catch\<close>, which
  answers 500; so does the cast error of the query when the end time is an invalid
  date.
\<close>

definition check_booking :: "instant \<Rightarrow> db \<Rightarrow> booking_request \<Rightarrow> error + booking_plan" where
  "check_booking now d req =
     (case validate_booking_request now d req of
        Inl e \<Rightarrow> Inl e
      | Inr (vid, bookingStartTime) \<Rightarrow>
          (case calculateRideDuration (req_fromPincode req) (req_toPincode req) of
             Inl thrown \<Rightarrow> Inl (InternalError ''Failed to create booking'')
           | Inr durationHours \<Rightarrow>
               (case calculateEndTime bookingStartTime durationHours of
                  None \<Rightarrow> Inl (InternalError ''Failed to create booking'')
                | Some bookingEndTime \<Rightarrow>
                    let conflictingBookings =
                          filter (overlap_query vid bookingStartTime bookingEndTime) (bookings d)
                    in if conflictingBookings \<noteq> []
                       then Inl (ConflictError (map conflict_of conflictingBookings))
                       else Inr \<lparr>p_vehicleId = vid,
                                 p_customerId = the (req_customerId req),
                                 p_fromPincode = the (req_fromPincode req),
                                 p_toPincode = the (req_toPincode req),
                                 p_startTime = bookingStartTime,
                                 p_endTime = bookingEndTime,
                                 p_duration = durationHours\<rparr>)))"

text \<open>
  Building the document and saving it (lines 106 to 116). \<open>customerId.trim()\<close>
  throws unless the customer identifier is a string; the exception aborts the
  transaction and is answered 500. Otherwise the status defaults to confirmed, the
  validators run with the clock of that moment, and a validation error aborts the
  transaction, so that nothing is inserted.
\<close>

definition save_booking :: "instant \<Rightarrow> db \<Rightarrow> booking_plan \<Rightarrow> (error + booking) \<times> db" where
  "save_booking now d p =
     (case p_customerId p of
        JStr c \<Rightarrow>
          (let b = \<lparr>b_id = next_id d,
                     vehicleId = p_vehicleId p,
                     customerId = trim (trim c),
                     fromPincode = trim (p_fromPincode p),
                     toPincode = trim (p_toPincode p),
                     startTime = p_startTime p,
                     endTime = p_endTime p,
                     estimatedRideDurationHours = p_duration p,
                     status = Confirmed\<rparr>
           in if booking_validators now b = []
              then (Inr (pre_save b),
                    d\<lparr>bookings := bookings d @ [pre_save b], next_id := Suc (next_id d)\<rparr>)
              else (Inl (ValidationError (booking_validators now b)), d))
      | _ \<Rightarrow> (Inl (InternalError ''Failed to create booking''), d))"

text \<open>
  The whole handler, run without interruption: the first clock is the one
  \<open>validateBookingTime\<close> reads, the second the one the schema's validator reads.
\<close>

definition post_bookings ::
    "instant \<Rightarrow> instant \<Rightarrow> db \<Rightarrow> booking_request \<Rightarrow> (error + booking) \<times> db" where
  "post_bookings now now_save d req =
     (case check_booking now d req of
        Inl e \<Rightarrow> (Inl e, d)
      | Inr p \<Rightarrow> save_booking now_save d p)"

section \<open>PATCH /api/bookings/:id/status\<close>

fun status_of_string :: "jstring \<Rightarrow> status option" where
  "status_of_string s =
     (if s = js ''confirmed'' then Some Confirmed
      else if s = js ''in-progress'' then Some InProgress
      else if s = js ''completed'' then Some Completed
      else if s = js ''cancelled'' then Some Cancelled
      else None)"

text \<open>\<open>findByIdAndUpdate\<close>: the first document with the identifier is updated.\<close>

fun set_status :: "oid \<Rightarrow> status \<Rightarrow> booking list \<Rightarrow> booking list" where
  "set_status i s [] = []"
| "set_status i s (b # bs) = (if b_id b = i then b\<lparr>status := s\<rparr> # bs else b # set_status i s bs)"

definition patch_booking_status ::
    "db \<Rightarrow> oid field \<Rightarrow> jstring option \<Rightarrow> (error + booking) \<times> db" where
  "patch_booking_status d idF statusF =
     (case idF of
        Parsed i \<Rightarrow>
          (case statusF of
             None \<Rightarrow> (Inl (ValidationError
               [''Invalid status. Must be one of: confirmed, in-progress, completed, cancelled'']), d)
           | Some s \<Rightarrow>
               (case status_of_string s of
                  None \<Rightarrow> (Inl (ValidationError
                    [''Invalid status. Must be one of: confirmed, in-progress, completed, cancelled'']), d)
                | Some st \<Rightarrow>
                    (case find (\<lambda>b. b_id b = i) (bookings d) of
                       None \<Rightarrow> (Inl (NotFoundError ''Booking not found''), d)
                     | Some b \<Rightarrow> (Inr (b\<lparr>status := st\<rparr>),
                         d\<lparr>bookings := set_status i st (bookings d)\<rparr>))))
      | _ \<Rightarrow> (Inl (ValidationError [''Invalid booking ID format'']), d))"

section \<open>GET /api/vehicles/available (routes/vehicles.js)\<close>

text \<open>
  The query of an availability search: the capacity by what \<open>parseFloat\<close> makes of
  it, the pincodes as strings, the start time by what \<open>new Date\<close> makes of it. The
  answer holds the vehicles found, each with the route and the window asked for, and
  the search criteria; the message of the answer is left out.
\<close>

record availability_request =
  q_capacityRequired :: "rat field"
  q_fromPincode :: "jstring option"
  q_toPincode :: "jstring option"
  q_startTime :: "instant field"

record available_vehicle =
  av_vehicle :: vehicle
  av_estimatedRideDurationHours :: rat
  av_from :: jstring
  av_to :: jstring
  av_startTime :: instant
  av_endTime :: instant

record availability =
  availableVehicles :: "available_vehicle list"
  sc_capacityRequired :: rat
  sc_fromPincode :: jstring
  sc_toPincode :: jstring
  sc_startTime :: instant
  sc_estimatedRideDurationHours :: rat

text \<open>
  The checks of the handler before it calls the duration estimator (lines 70 to 111);
  when they pass, the handler holds the capacity and the start time.
\<close>

definition validate_availability_request ::
    "instant \<Rightarrow> availability_request \<Rightarrow> error + rat \<times> instant" where
  "validate_availability_request now q =
     (if is_missing (q_capacityRequired q) \<or> falsy (q_fromPincode q) \<or> falsy (q_toPincode q)
         \<or> is_missing (q_startTime q)
        then Inl (ValidationError
          [''capacityRequired, fromPincode, toPincode, and startTime are required''])
      else case q_capacityRequired q of
        Parsed capacity \<Rightarrow>
          if capacity \<le> 0
            then Inl (ValidationError [''capacityRequired must be a positive number''])
          else if \<not> is_pincode (the (q_fromPincode q)) \<or> \<not> is_pincode (the (q_toPincode q))
            then Inl (ValidationError [''Pincodes must be exactly 6 digits''])
          else (case q_startTime q of
            Parsed requestedStartTime \<Rightarrow>
              if requestedStartTime \<le> now
                then Inl (ValidationError [''Start time must be in the future''])
              else Inr (capacity, requestedStartTime)
          | _ \<Rightarrow> Inl (ValidationError
              [''Invalid startTime format. Use ISO date format (e.g., 2023-10-27T10:00:00Z)'']))
      | _ \<Rightarrow> Inl (ValidationError [''capacityRequired must be a positive number'']))"

text \<open>
  The handler: the checks, the call of the estimator (line 114), the end time
  (line 115), the vehicles with the capacity (line 118) and, when there are any, one
  overlap query for each (line 142). When the end time is an invalid date the first
  overlap query throws a cast error, which the \<open>catch\<close> answers 500; without an
  eligible vehicle no query is made.
\<close>

definition get_vehicles_available ::
    "instant \<Rightarrow> db \<Rightarrow> availability_request \<Rightarrow> (error + availability) \<times> db" where
  "get_vehicles_available now d q =
     (case validate_availability_request now q of
        Inl e \<Rightarrow> (Inl e, d)
      | Inr (capacity, requestedStartTime) \<Rightarrow>
          (case calculateRideDuration (q_fromPincode q) (q_toPincode q) of
             Inl thrown \<Rightarrow> (Inl (InternalError ''Failed to find available vehicles''), d)
           | Inr durationHours \<Rightarrow>
               let requestedEndTime = calculateEndTime requestedStartTime durationHours;
                   eligibleVehicles =
                     filter (\<lambda>v. capacityKg v \<ge> capacity \<and> isActive v) (vehicles d);
                   searchCriteria = (\<lambda>avs. \<lparr>availableVehicles = avs,
                     sc_capacityRequired = capacity,
                     sc_fromPincode = the (q_fromPincode q),
                     sc_toPincode = the (q_toPincode q),
                     sc_startTime = requestedStartTime,
                     sc_estimatedRideDurationHours = durationHours\<rparr>)
               in if eligibleVehicles = [] then (Inr (searchCriteria []), d)
                  else (case requestedEndTime of
                    None \<Rightarrow> (Inl (InternalError ''Failed to find available vehicles''), d)
                  | Some endT \<Rightarrow>
                      let available =
                        map (\<lambda>v. \<lparr>av_vehicle = v,
                                av_estimatedRideDurationHours = durationHours,
                                av_from = the (q_fromPincode q),
                                av_to = the (q_toPincode q),
                                av_startTime = requestedStartTime,
                                av_endTime = endT\<rparr>)
                          (filter (\<lambda>v. filter (overlap_query (v_id v) requestedStartTime endT)
                                           (bookings d) = [])
                             eligibleVehicles)
                      in (Inr (searchCriteria available), d))))"

section \<open>Sequences of operations on the ledger\<close>

text \<open>
  The two operations that change the bookings, each run to its end before the next
  one starts: a booking request with its two clock readings, and a status update.
\<close>

datatype operation =
  PostBooking instant instant booking_request
  | PatchStatus "oid field" "jstring option"

fun step :: "db \<Rightarrow> operation \<Rightarrow> db" where
  "step d (PostBooking now now_save req) = snd (post_bookings now now_save d req)"
| "step d (PatchStatus idF statusF) = snd (patch_booking_status d idF statusF)"

definition run :: "db \<Rightarrow> operation list \<Rightarrow> db" where
  "run d ops = foldl step d ops"

text \<open>
  Two bookings clash when they are on the same vehicle, both with an occupying
  status, and their intervals overlap. The ledger has no double booking when the
  exhaustive scan of its pairs finds no clash.
\<close>

definition clash :: "booking \<Rightarrow> booking \<Rightarrow> bool" where
  "clash a b =
     (vehicleId a = vehicleId b \<and> occupying (status a) \<and> occupying (status b) \<and>
      doTimeRangesOverlap (startTime a) (endTime a) (startTime b) (endTime b))"

fun no_double_booking :: "booking list \<Rightarrow> bool" where
  "no_double_booking [] = True"
| "no_double_booking (b # bs) = (list_all (\<lambda>c. \<not> clash b c) bs \<and> no_double_booking bs)"

text \<open>
  A status update reactivates a booking when it moves a booking that does not occupy
  its vehicle (completed or cancelled) to a status that does.
\<close>

fun reactivates :: "db \<Rightarrow> operation \<Rightarrow> bool" where
  "reactivates d (PatchStatus (Parsed i) (Some s)) =
     (case (status_of_string s, find (\<lambda>b. b_id b = i) (bookings d)) of
        (Some st, Some b) \<Rightarrow> occupying st \<and> \<not> occupying (status b)
      | _ \<Rightarrow> False)"
| "reactivates d _ = False"

fun reactivation_free :: "db \<Rightarrow> operation list \<Rightarrow> bool" where
  "reactivation_free d [] = True"
| "reactivation_free d (x # xs) = (\<not> reactivates d x \<and> reactivation_free (step d x) xs)"

section \<open>A small fleet and some requests\<close>

definition truck :: vehicle where
  "truck = \<lparr>v_id = 1, name = js ''Test Truck'', capacityKg = 5000, tyres = 6, isActive = True\<rparr>"

definition retired_van :: vehicle where
  "retired_van = \<lparr>v_id = 2, name = js ''Old Van'', capacityKg = 800, tyres = 4, isActive = False\<rparr>"

definition fleet :: db where
  "fleet = \<lparr>vehicles = [truck, retired_van], bookings = [], next_id = 3\<rparr>"

text \<open>The clock of the examples, and one day after it.\<close>

definition clock :: instant where
  "clock = 1700000000000"

definition tomorrow :: instant where
  "tomorrow = clock + 24 * 60 * 60 * 1000"

text \<open>A two-hour ride on the truck from tomorrow, and a one-hour ride half an hour into it.\<close>

definition first_request :: booking_request where
  "first_request = \<lparr>req_vehicleId = Parsed 1, req_fromPincode = Some (js ''110001''),
     req_toPincode = Some (js ''110003''), req_startTime = Parsed tomorrow,
     req_customerId = Some (JStr (js ''customer-1''))\<rparr>"

definition second_request :: booking_request where
  "second_request = \<lparr>req_vehicleId = Parsed 1, req_fromPincode = Some (js ''110001''),
     req_toPincode = Some (js ''110002''), req_startTime = Parsed (tomorrow + 30 * 60 * 1000),
     req_customerId = Some (JStr (js ''customer-2''))\<rparr>"

text \<open>A search for 500 kg over half an hour (the two pincodes are equal) from a given start.\<close>

definition short_ride_at :: "instant \<Rightarrow> availability_request" where
  "short_ride_at st = \<lparr>q_capacityRequired = Parsed 500, q_fromPincode = Some (js ''110001''),
     q_toPincode = Some (js ''110001''), q_startTime = Parsed st\<rparr>"

text \<open>A one-hour ride on the truck that starts when the first ride ends.\<close>

definition third_request :: booking_request where
  "third_request = \<lparr>req_vehicleId = Parsed 1, req_fromPincode = Some (js ''110003''),
     req_toPincode = Some (js ''110004''), req_startTime = Parsed (tomorrow + 2 * 60 * 60 * 1000),
     req_customerId = Some (JStr (js ''customer-3''))\<rparr>"

text \<open>
  Two sequences of operations on the fleet. In the first the first booking is
  cancelled, an overlapping one is taken, and the first is confirmed again. In the
  second an overlapping request is refused, the first booking goes to in-progress, and
  a booking that starts when it ends is taken.
\<close>

definition reactivating_sequence :: "operation list" where
  "reactivating_sequence =
     [PostBooking clock clock first_request,
      PatchStatus (Parsed 3) (Some (js ''cancelled'')),
      PostBooking clock clock second_request,
      PatchStatus (Parsed 3) (Some (js ''confirmed''))]"

definition back_to_back_sequence :: "operation list" where
  "back_to_back_sequence =
     [PostBooking clock clock first_request,
      PostBooking clock clock second_request,
      PatchStatus (Parsed 3) (Some (js ''in-progress'')),
      PostBooking clock clock third_request]"

section \<open>Two booking requests handled at the same time\<close>

text \<open>
  The booking handler gives control up at each \<open>await\<close>: after its checks it awaits
  the overlap query (line 78), and later the save (line 116). Between the two, another
  request's handler can run. The transaction the two steps share reads a snapshot and
  holds no lock on what the query has read; two inserts of different documents are not
  a write conflict. Below, both handlers run their query on the same database before
  either saves.
\<close>

definition post_bookings_interleaved ::
    "instant \<Rightarrow> instant \<Rightarrow> db \<Rightarrow> booking_request \<Rightarrow> booking_request \<Rightarrow>
     (error + booking) \<times> (error + booking) \<times> db" where
  "post_bookings_interleaved now now_save d r1 r2 =
     (let c1 = check_booking now d r1;
          c2 = check_booking now d r2;
          (a1, d1) = (case c1 of Inl e \<Rightarrow> (Inl e, d) | Inr p \<Rightarrow> save_booking now_save d p);
          (a2, d2) = (case c2 of Inl e \<Rightarrow> (Inl e, d1) | Inr p \<Rightarrow> save_booking now_save d1 p)
      in (a1, a2, d2))"

section \<open>Properties of the ride calculations\<close>

lemma overlap_query_half_open:
  "overlap_query vid s e b =
     (vehicleId b = vid \<and> occupying (status b) \<and> doTimeRangesOverlap s e (startTime b) (endTime b))"
  by (auto simp: overlap_query_def doTimeRangesOverlap_def)

lemma calculateRideDuration_pincodes:
  assumes "is_pincode f" "is_pincode t"
  shows "calculateRideDuration (Some f) (Some t) =
           Inr (max (of_int (\<bar>parseInt t - parseInt f\<bar> mod 24)) (1 / 2))"
proof -
  from assms have "f \<noteq> []" "t \<noteq> []" by (auto simp: is_pincode_def)
  with assms show ?thesis by (simp add: Let_def)
qed

lemma calculateRideDuration_throws:
  assumes "\<not> (\<exists>f t. a = Some f \<and> b = Some t \<and> is_pincode f \<and> is_pincode t)"
  shows "\<exists>m. calculateRideDuration a b = Inl m"
proof (cases a)
  case None then show ?thesis by simp
next
  case (Some f)
  show ?thesis
  proof (cases b)
    case None with Some show ?thesis by simp
  next
    case (Some t)
    with \<open>a = Some f\<close> assms have "\<not> is_pincode f \<or> \<not> is_pincode t" by simp
    with Some \<open>a = Some f\<close> show ?thesis by auto
  qed
qed

lemma timeClip_of_int:
  "timeClip (of_int n) = (if \<bar>n\<bar> > 8640000000000000 then None else Some n)"
proof -
  have "(\<bar>of_int n :: rat\<bar> > 8640000000000000) = (\<bar>n\<bar> > 8640000000000000)"
    by (metis of_int_abs of_int_less_iff of_int_numeral)
  then show ?thesis by (simp add: timeClip_def)
qed

lemma duration_cases:
  assumes "calculateRideDuration a b = Inr dur"
  shows "dur = 1 / 2 \<or> (\<exists>k::int. 1 \<le> k \<and> k < 24 \<and> dur = of_int k)"
proof -
  from assms calculateRideDuration_throws[of a b]
  obtain f t where ft: "a = Some f" "b = Some t" "is_pincode f" "is_pincode t" by fastforce
  define k where "k = \<bar>parseInt t - parseInt f\<bar> mod 24"
  have k: "0 \<le> k" "k < 24" by (simp_all add: k_def)
  have "calculateRideDuration a b = Inr (max (of_int k) (1 / 2))"
    unfolding ft(1,2) k_def by (rule calculateRideDuration_pincodes[OF ft(3,4)])
  with assms have dur: "dur = max (of_int k) (1 / 2)" by simp
  show ?thesis
  proof (cases "k = 0")
    case True with dur show ?thesis by simp
  next
    case False
    with k have "1 \<le> k" by simp
    then have "(1::rat) \<le> of_int k" by simp
    with dur have "dur = of_int k" by (simp add: max_def)
    with \<open>1 \<le> k\<close> k show ?thesis by blast
  qed
qed

text \<open>
  An estimated duration is a whole, positive number of milliseconds; the end time
  is the start plus that number, or an invalid date when the sum leaves the range.
\<close>

lemma calculateEndTime_estimated:
  assumes "calculateRideDuration a b = Inr dur"
  shows "\<exists>ms::int. 0 < ms \<and> dur * 3600000 = of_int ms \<and>
     calculateEndTime st dur = (if \<bar>st + ms\<bar> > 8640000000000000 then None else Some (st + ms))"
proof -
  from duration_cases[OF assms] show ?thesis
  proof
    assume d: "dur = 1 / 2"
    have "of_int st + dur * 60 * 60 * 1000 = (of_int (st + 1800000) :: rat)"
      unfolding d by simp
    then have "calculateEndTime st dur =
        (if \<bar>st + 1800000\<bar> > 8640000000000000 then None else Some (st + 1800000))"
      unfolding calculateEndTime_def by (simp only: timeClip_of_int)
    moreover have "dur * 3600000 = of_int (1800000::int)" unfolding d by simp
    ultimately show ?thesis by (intro exI[of _ "1800000::int"]) simp
  next
    assume "\<exists>k::int. 1 \<le> k \<and> k < 24 \<and> dur = of_int k"
    then obtain k :: int where k: "1 \<le> k" "dur = of_int k" by blast
    have "of_int st + dur * 60 * 60 * 1000 = (of_int (st + k * 3600000) :: rat)"
      unfolding k(2) by simp
    then have "calculateEndTime st dur =
        (if \<bar>st + k * 3600000\<bar> > 8640000000000000 then None else Some (st + k * 3600000))"
      unfolding calculateEndTime_def by (simp only: timeClip_of_int)
    moreover have "dur * 3600000 = of_int (k * 3600000)" unfolding k(2) by simp
    moreover from k(1) have "0 < k * 3600000" by simp
    ultimately show ?thesis by (intro exI[of _ "k * 3600000"]) simp
  qed
qed

lemma calculateEndTime_exact:
  assumes "calculateRideDuration a b = Inr dur" "calculateEndTime st dur = Some e"
  shows "(of_int e :: rat) = of_int st + dur * 3600000" and "st < e"
    and "\<bar>e\<bar> \<le> 8640000000000000"
proof -
  from calculateEndTime_estimated[OF assms(1), of st]
  obtain ms :: int where ms: "0 < ms" "dur * 3600000 = of_int ms"
    "calculateEndTime st dur = (if \<bar>st + ms\<bar> > 8640000000000000 then None else Some (st + ms))"
    by blast
  from ms(3) assms(2) have e: "e = st + ms" "\<bar>st + ms\<bar> \<le> 8640000000000000"
    by (auto split: if_splits)
  from e(1) ms(2) show "(of_int e :: rat) = of_int st + dur * 3600000" by simp
  from e(1) ms(1) show "st < e" by simp
  from e show "\<bar>e\<bar> \<le> 8640000000000000" by simp
qed

lemma duration_at_least_half:
  assumes "calculateRideDuration a b = Inr dur"
  shows "1 / 2 \<le> dur"
  using duration_cases[OF assms] by auto

lemma validateBookingTime_valid:
  "isValid (validateBookingTime now st) = (now < st \<and> st \<le> now + 31536000000)"
  by (auto simp: validateBookingTime_def)

section \<open>Properties of the booking handler\<close>

lemma pincode_not_empty: "is_pincode p \<Longrightarrow> p \<noteq> []"
  by (auto simp: is_pincode_def)


text \<open>What the handler knows when its checks have passed.\<close>

lemma validate_booking_request_passed:
  assumes "validate_booking_request now d req = Inr (vid, st)"
  shows "req_vehicleId req = Parsed vid" and "req_startTime req = Parsed st"
    and "\<exists>f t. req_fromPincode req = Some f \<and> req_toPincode req = Some t \<and>
           is_pincode f \<and> is_pincode t"
    and "truthy (req_customerId req)"
    and "now < st" and "st \<le> now + 31536000000"
    and "find_active_vehicle d vid \<noteq> None"
proof -
  from assms have *: "req_vehicleId req = Parsed vid \<and> req_startTime req = Parsed st \<and>
      \<not> falsy (req_fromPincode req) \<and> \<not> falsy (req_toPincode req) \<and>
      is_pincode (the (req_fromPincode req)) \<and> is_pincode (the (req_toPincode req)) \<and>
      truthy (req_customerId req) \<and> isValid (validateBookingTime now st) \<and>
      find_active_vehicle d vid \<noteq> None"
    unfolding validate_booking_request_def
    by (auto simp: Let_def split: if_splits field.splits option.splits)
  then show "req_vehicleId req = Parsed vid" "req_startTime req = Parsed st"
    "truthy (req_customerId req)" "find_active_vehicle d vid \<noteq> None"
    by simp_all
  from * show "now < st" "st \<le> now + 31536000000"
    by (simp_all add: validateBookingTime_valid)
  from * obtain f t where "req_fromPincode req = Some f" "req_toPincode req = Some t"
    by (cases "req_fromPincode req"; cases "req_toPincode req") auto
  with * show "\<exists>f t. req_fromPincode req = Some f \<and> req_toPincode req = Some t \<and>
           is_pincode f \<and> is_pincode t"
    by auto
qed

lemma booking_estimator_returns:
  assumes "validate_booking_request now d req = Inr x"
  shows "\<exists>dur. calculateRideDuration (req_fromPincode req) (req_toPincode req) = Inr dur"
proof -
  obtain vid st where "x = (vid, st)" by (cases x)
  with validate_booking_request_passed(3)[of now d req vid st] assms
  obtain f t where "req_fromPincode req = Some f" "req_toPincode req = Some t"
    "is_pincode f" "is_pincode t" by blast
  then show ?thesis using calculateRideDuration_pincodes[of f t] by simp
qed


lemma validate_failure_check_booking:
  "validate_booking_request now d req = Inl e \<Longrightarrow> check_booking now d req = Inl e"
  by (simp add: check_booking_def)

lemma post_bookings_of_check_failure:
  "check_booking now d req = Inl e \<Longrightarrow> post_bookings now now_save d req = (Inl e, d)"
  by (simp add: post_bookings_def)







text \<open>
  A customer identifier that is a number passes the checks and makes the handler
  throw when it builds the document: the answer is the internal error, and nothing is
  inserted.
\<close>

lemma post_bookings_customer_number:
  "post_bookings clock clock fleet (first_request\<lparr>req_customerId := Some (JNum 42)\<rparr>) =
     (Inl (InternalError ''Failed to create booking''), fleet)"
  by code_simp

section \<open>Properties of the availability search\<close>

lemma validate_availability_request_well_formed:
  assumes "q_capacityRequired q = Parsed cap" "0 < cap"
    and "q_fromPincode q = Some f" "is_pincode f"
    and "q_toPincode q = Some t" "is_pincode t"
    and "q_startTime q = Parsed st" "now < st"
  shows "validate_availability_request now q = Inr (cap, st)"
proof -
  from assms(4,6) have ne: "f \<noteq> []" "t \<noteq> []" by (auto dest: pincode_not_empty)
  show ?thesis
    unfolding validate_availability_request_def
    using assms ne
    by simp
qed

lemma availability_estimator_returns:
  assumes "validate_availability_request now q = Inr x"
  shows "\<exists>dur. calculateRideDuration (q_fromPincode q) (q_toPincode q) = Inr dur"
proof -
  from assms have *: "\<not> falsy (q_fromPincode q) \<and> \<not> falsy (q_toPincode q) \<and>
      is_pincode (the (q_fromPincode q)) \<and> is_pincode (the (q_toPincode q))"
    unfolding validate_availability_request_def
    by (auto split: if_splits field.splits)
  then obtain f t where "q_fromPincode q = Some f" "q_toPincode q = Some t"
    by (cases "q_fromPincode q"; cases "q_toPincode q") auto
  with * show ?thesis using calculateRideDuration_pincodes[of f t] by simp
qed

lemma get_vehicles_available_well_formed:
  assumes "q_capacityRequired q = Parsed cap" "0 < cap"
    and "q_fromPincode q = Some f" "is_pincode f"
    and "q_toPincode q = Some t" "is_pincode t"
    and "q_startTime q = Parsed st" "now < st"
    and "calculateRideDuration (Some f) (Some t) = Inr dur"
    and "calculateEndTime st dur = Some e"
  shows "get_vehicles_available now d q =
    (Inr \<lparr>availableVehicles =
            map (\<lambda>v. \<lparr>av_vehicle = v, av_estimatedRideDurationHours = dur,
                      av_from = f, av_to = t, av_startTime = st, av_endTime = e\<rparr>)
              (filter (\<lambda>v. filter (overlap_query (v_id v) st e) (bookings d) = [])
                 (filter (\<lambda>v. capacityKg v \<ge> cap \<and> isActive v) (vehicles d))),
          sc_capacityRequired = cap, sc_fromPincode = f, sc_toPincode = t,
          sc_startTime = st, sc_estimatedRideDurationHours = dur\<rparr>, d)"
proof -
  from validate_availability_request_well_formed[OF assms(1-8)]
  have "validate_availability_request now q = Inr (cap, st)" .
  then show ?thesis
    unfolding get_vehicles_available_def
    using assms(3,5,9,10)
    by (auto simp: Let_def filter_empty_conv simp del: calculateRideDuration.simps)
qed

text \<open>
  When the end of the window is an invalid date: a success with an empty list if no
  active vehicle has the capacity, the internal error otherwise.
\<close>

lemma get_vehicles_available_invalid_end:
  assumes "q_capacityRequired q = Parsed cap" "0 < cap"
    and "q_fromPincode q = Some f" "is_pincode f"
    and "q_toPincode q = Some t" "is_pincode t"
    and "q_startTime q = Parsed st" "now < st"
    and "calculateRideDuration (Some f) (Some t) = Inr dur"
    and "calculateEndTime st dur = None"
  shows "get_vehicles_available now d q =
    (if filter (\<lambda>v. capacityKg v \<ge> cap \<and> isActive v) (vehicles d) = []
     then (Inr \<lparr>availableVehicles = [],
          sc_capacityRequired = cap, sc_fromPincode = f, sc_toPincode = t,
          sc_startTime = st, sc_estimatedRideDurationHours = dur\<rparr>, d)
     else (Inl (InternalError ''Failed to find available vehicles''), d))"
proof -
  from validate_availability_request_well_formed[OF assms(1-8)]
  have "validate_availability_request now q = Inr (cap, st)" .
  then show ?thesis
    unfolding get_vehicles_available_def
    using assms(3,5,9,10)
    by (simp add: Let_def del: calculateRideDuration.simps)
qed

lemma get_vehicles_available_pure: "snd (get_vehicles_available now d q) = d"
  unfolding get_vehicles_available_def
  by (simp add: Let_def split: sum.splits prod.splits option.splits
      del: calculateRideDuration.simps)

text \<open>
  A search that starts at the last instant a date can hold: the end of the window is
  an invalid date, the fleet has a vehicle with the capacity, and the answer is the
  internal error.
\<close>

lemma get_vehicles_available_last_instant:
  "calculateEndTime 8640000000000000 (1 / 2) = None \<and>
   get_vehicles_available clock fleet (short_ride_at 8640000000000000) =
     (Inl (InternalError ''Failed to find available vehicles''), fleet)"
  by code_simp

section \<open>Properties of the vehicle handler\<close>

lemma dropWhile_trim: "dropWhile is_space (trim s) = trim s"
proof (cases "trim s")
  case Nil
  then show ?thesis by simp
next
  case (Cons x xs)
  let ?u = "dropWhile is_space s"
  have "rev ?u = takeWhile is_space (rev ?u) @ dropWhile is_space (rev ?u)" by simp
  then have "?u = trim s @ rev (takeWhile is_space (rev ?u))"
    unfolding trim_def by (metis rev_append rev_rev_ident)
  with Cons have u: "?u = x # (xs @ rev (takeWhile is_space (rev ?u)))" by simp
  then have "?u \<noteq> []" by (metis list.discI)
  then have "\<not> is_space (hd ?u)" by (rule hd_dropWhile)
  with u have "\<not> is_space x" by (metis list.sel(1))
  with Cons show ?thesis by simp
qed

lemma trim_idem: "trim (trim s) = trim s"
proof -
  have "trim (trim s) = rev (dropWhile is_space (rev (trim s)))"
    unfolding trim_def[of "trim s"] by (simp only: dropWhile_trim)
  also have "rev (trim s) = dropWhile is_space (rev (dropWhile is_space s))"
    by (simp add: trim_def)
  also have "rev (dropWhile is_space (dropWhile is_space (rev (dropWhile is_space s)))) = trim s"
    by (simp add: trim_def dropWhile_idem)
  finally show ?thesis .
qed

lemma vehicle_validators_empty:
  "vehicle_validators v = [] \<longleftrightarrow>
     name v \<noteq> [] \<and> length (name v) \<le> 100 \<and> 1 \<le> capacityKg v \<and> capacityKg v \<le> 50000 \<and>
     2 \<le> tyres v \<and> tyres v \<le> 18"
  by (auto simp: vehicle_validators_def)

lemma trim_Nil: "trim [] = []"
  by (simp add: trim_def)

section \<open>The ledger under sequences of operations\<close>

lemma no_double_booking_sorted_wrt:
  "no_double_booking bs = sorted_wrt (\<lambda>a c. \<not> clash a c) bs"
  by (induction bs) (simp_all add: list_all_iff)

lemma no_double_booking_append:
  "no_double_booking (bs @ [b]) \<longleftrightarrow> no_double_booking bs \<and> (\<forall>c \<in> set bs. \<not> clash c b)"
  by (auto simp: no_double_booking_sorted_wrt sorted_wrt_append)

lemma no_double_booking_nth:
  "no_double_booking bs \<longleftrightarrow> (\<forall>i j. i < j \<longrightarrow> j < length bs \<longrightarrow> \<not> clash (bs ! i) (bs ! j))"
  by (simp add: no_double_booking_sorted_wrt sorted_wrt_iff_nth_less)

lemma check_booking_plan:
  assumes "check_booking now d req = Inr p"
  shows "filter (overlap_query (p_vehicleId p) (p_startTime p) (p_endTime p)) (bookings d) = []"
    and "calculateEndTime (p_startTime p) (p_duration p) = Some (p_endTime p)"
  using assms unfolding check_booking_def
  by (auto simp: Let_def split: if_splits sum.splits prod.splits option.splits
      simp del: calculateRideDuration.simps)

lemma endTime_pre_save:
  "calculateEndTime (startTime b) (estimatedRideDurationHours b) = Some (endTime b) \<Longrightarrow>
     pre_save b = b"
  by (simp add: pre_save_def calculateEndTime_def)

lemma save_booking_bookings:
  assumes "calculateEndTime (p_startTime p) (p_duration p) = Some (p_endTime p)"
  shows "bookings (snd (save_booking now d p)) = bookings d \<or>
    (\<exists>b. bookings (snd (save_booking now d p)) = bookings d @ [b] \<and>
         vehicleId b = p_vehicleId p \<and> startTime b = p_startTime p \<and> endTime b = p_endTime p)"
proof (cases "\<exists>c. p_customerId p = JStr c")
  case False
  then show ?thesis by (auto simp: save_booking_def split: json.splits)
next
  case True
  then obtain c where c: "p_customerId p = JStr c" by blast
  let ?b = "\<lparr>b_id = next_id d, vehicleId = p_vehicleId p, customerId = trim (trim c),
      fromPincode = trim (p_fromPincode p), toPincode = trim (p_toPincode p),
      startTime = p_startTime p, endTime = p_endTime p,
      estimatedRideDurationHours = p_duration p, status = Confirmed\<rparr>"
  have "pre_save ?b = ?b" using assms by (intro endTime_pre_save) simp
  then show ?thesis
    using c by (simp add: save_booking_def Let_def)
qed

lemma post_bookings_invariant:
  assumes "no_double_booking (bookings d)"
  shows "no_double_booking (bookings (snd (post_bookings now now_save d req)))"
proof (cases "check_booking now d req")
  case (Inl e)
  with assms show ?thesis by (simp add: post_bookings_def)
next
  case (Inr p)
  note plan = check_booking_plan[OF Inr]
  have post: "post_bookings now now_save d req = save_booking now_save d p"
    using Inr by (simp add: post_bookings_def)
  from save_booking_bookings[OF plan(2), of now_save d] show ?thesis
  proof
    assume "bookings (snd (save_booking now_save d p)) = bookings d"
    with assms post show ?thesis by simp
  next
    assume "\<exists>b. bookings (snd (save_booking now_save d p)) = bookings d @ [b] \<and>
         vehicleId b = p_vehicleId p \<and> startTime b = p_startTime p \<and> endTime b = p_endTime p"
    then obtain b where b: "bookings (snd (save_booking now_save d p)) = bookings d @ [b]"
      "vehicleId b = p_vehicleId p" "startTime b = p_startTime p" "endTime b = p_endTime p"
      by blast
    have "\<not> clash c b" if "c \<in> set (bookings d)" for c
    proof
      assume "clash c b"
      then have "overlap_query (p_vehicleId p) (p_startTime p) (p_endTime p) c"
        using b(2-4) by (simp add: clash_def overlap_query_def doTimeRangesOverlap_def)
      with that plan(1) show False by (simp add: filter_empty_conv)
    qed
    with assms b(1) post show ?thesis by (simp add: no_double_booking_append)
  qed
qed

text \<open>A status update that does not reactivate keeps the scan clean.\<close>

lemma set_status_no_clash:
  assumes "\<forall>c \<in> set bs. \<not> clash a c"
    and "\<And>b. find (\<lambda>b. b_id b = i) bs = Some b \<Longrightarrow> occupying st \<Longrightarrow> occupying (status b)"
  shows "\<forall>c \<in> set (set_status i st bs). \<not> clash a c"
  using assms
proof (induction bs)
  case Nil
  then show ?case by simp
next
  case (Cons b bs)
  show ?case
  proof (cases "b_id b = i")
    case True
    from Cons.prems(2)[of b] True have "occupying st \<Longrightarrow> occupying (status b)" by simp
    moreover from Cons.prems(1) have "\<not> clash a b" by simp
    ultimately have "\<not> clash a (b\<lparr>status := st\<rparr>)" by (auto simp: clash_def)
    with Cons.prems(1) True show ?thesis by simp
  next
    case False
    with Cons.prems(2) have "\<And>c. find (\<lambda>b. b_id b = i) bs = Some c \<Longrightarrow> occupying st \<Longrightarrow> occupying (status c)"
      by simp
    with Cons.IH Cons.prems(1) have "\<forall>c \<in> set (set_status i st bs). \<not> clash a c" by simp
    with Cons.prems(1) False show ?thesis by simp
  qed
qed

lemma set_status_invariant:
  assumes "no_double_booking bs"
    and "\<And>b. find (\<lambda>b. b_id b = i) bs = Some b \<Longrightarrow> occupying st \<Longrightarrow> occupying (status b)"
  shows "no_double_booking (set_status i st bs)"
  using assms
proof (induction bs)
  case Nil
  then show ?case by simp
next
  case (Cons b bs)
  show ?case
  proof (cases "b_id b = i")
    case True
    from Cons.prems(2)[of b] True have occ: "occupying st \<Longrightarrow> occupying (status b)" by simp
    from Cons.prems(1) have "\<forall>c \<in> set bs. \<not> clash b c" "no_double_booking bs"
      by (simp_all add: list_all_iff)
    moreover from this(1) occ have "\<forall>c \<in> set bs. \<not> clash (b\<lparr>status := st\<rparr>) c"
      by (auto simp: clash_def)
    ultimately show ?thesis using True by (simp add: list_all_iff)
  next
    case False
    with Cons.prems(2) have safe: "\<And>c. find (\<lambda>b. b_id b = i) bs = Some c \<Longrightarrow> occupying st \<Longrightarrow> occupying (status c)"
      by simp
    from Cons.prems(1) have nc: "\<forall>c \<in> set bs. \<not> clash b c" and inv: "no_double_booking bs"
      by (simp_all add: list_all_iff)
    from set_status_no_clash[OF nc safe] Cons.IH[OF inv safe] False
    show ?thesis by (simp add: list_all_iff)
  qed
qed

lemma step_invariant:
  assumes "no_double_booking (bookings d)" "\<not> reactivates d x"
  shows "no_double_booking (bookings (step d x))"
proof (cases x)
  case (PostBooking now now_save req)
  with assms(1) show ?thesis by (simp add: post_bookings_invariant)
next
  case (PatchStatus idF statusF)
  show ?thesis
  proof (cases "\<exists>i s st. idF = Parsed i \<and> statusF = Some s \<and> status_of_string s = Some st
      \<and> find (\<lambda>b. b_id b = i) (bookings d) \<noteq> None")
    case True
    then obtain i s st b0 where v: "idF = Parsed i" "statusF = Some s" "status_of_string s = Some st"
      "find (\<lambda>b. b_id b = i) (bookings d) = Some b0" by auto
    from assms(2) PatchStatus v have "occupying st \<Longrightarrow> occupying (status b0)"
      by (auto simp del: status_of_string.simps)
    with v(4) have "\<And>b. find (\<lambda>b. b_id b = i) (bookings d) = Some b \<Longrightarrow> occupying st \<Longrightarrow> occupying (status b)"
      by simp
    from set_status_invariant[OF assms(1) this]
    have "no_double_booking (set_status i st (bookings d))" .
    with PatchStatus v show ?thesis
      by (simp add: patch_booking_status_def del: status_of_string.simps)
  next
    case False
    then have "snd (patch_booking_status d idF statusF) = d"
      by (auto simp: patch_booking_status_def split: field.splits option.splits
          simp del: status_of_string.simps)
    with PatchStatus assms(1) show ?thesis by simp
  qed
qed

lemma run_invariant:
  "no_double_booking (bookings d) \<Longrightarrow> reactivation_free d ops \<Longrightarrow>
     no_double_booking (bookings (run d ops))"
proof (induction ops arbitrary: d)
  case Nil
  then show ?case by (simp add: run_def)
next
  case (Cons x xs)
  from Cons.prems have "no_double_booking (bookings (step d x))" "reactivation_free (step d x) xs"
    by (simp_all add: step_invariant)
  from Cons.IH[OF this] show ?case by (simp add: run_def)
qed

section \<open>The claims\<close>

text \<open>
  Claim C1, as stated: after any sequence of booking requests and status updates on
  an empty ledger, no two bookings of one vehicle with status confirmed or
  in-progress overlap. A status update checks nothing but the name of the new status:
  the first booking is cancelled, a booking that overlaps it is accepted, and the first
  booking is set back to confirmed. The ledger then holds two confirmed bookings of
  the truck that overlap.
\<close>

theorem reactivation_double_books:
  "bookings fleet = []
   \<and> bookings (run fleet reactivating_sequence) =
       [\<lparr>b_id = 3, vehicleId = 1, customerId = js ''customer-1'',
         fromPincode = js ''110001'', toPincode = js ''110003'',
         startTime = 1700086400000, endTime = 1700093600000,
         estimatedRideDurationHours = 2, status = Confirmed\<rparr>,
        \<lparr>b_id = 4, vehicleId = 1, customerId = js ''customer-2'',
         fromPincode = js ''110001'', toPincode = js ''110002'',
         startTime = 1700088200000, endTime = 1700091800000,
         estimatedRideDurationHours = 1, status = Confirmed\<rparr>]
   \<and> vehicleId (bookings (run fleet reactivating_sequence) ! 0) =
       vehicleId (bookings (run fleet reactivating_sequence) ! 1)
   \<and> occupying (status (bookings (run fleet reactivating_sequence) ! 0))
   \<and> occupying (status (bookings (run fleet reactivating_sequence) ! 1))
   \<and> doTimeRangesOverlap
        (startTime (bookings (run fleet reactivating_sequence) ! 0))
        (endTime (bookings (run fleet reactivating_sequence) ! 0))
        (startTime (bookings (run fleet reactivating_sequence) ! 1))
        (endTime (bookings (run fleet reactivating_sequence) ! 1))"
  by code_simp

text \<open>
  Claim C1, amended. After any sequence of booking requests and status updates on an
  empty ledger in which no status update moves a booking from completed or cancelled
  to confirmed or in-progress, no two bookings of one vehicle with status confirmed
  or in-progress overlap under the half-open rule.
\<close>

theorem no_double_booking_without_reactivation:
  "bookings d0 = [] \<and> reactivation_free d0 ops \<longrightarrow>
     (\<forall>i j. i < j \<and> j < length (bookings (run d0 ops)) \<and>
        vehicleId (bookings (run d0 ops) ! i) = vehicleId (bookings (run d0 ops) ! j) \<and>
        occupying (status (bookings (run d0 ops) ! i)) \<and>
        occupying (status (bookings (run d0 ops) ! j)) \<longrightarrow>
        \<not> doTimeRangesOverlap
            (startTime (bookings (run d0 ops) ! i)) (endTime (bookings (run d0 ops) ! i))
            (startTime (bookings (run d0 ops) ! j)) (endTime (bookings (run d0 ops) ! j)))"
proof (intro impI allI)
  fix i j
  assume h: "bookings d0 = [] \<and> reactivation_free d0 ops"
  assume ij: "i < j \<and> j < length (bookings (run d0 ops)) \<and>
        vehicleId (bookings (run d0 ops) ! i) = vehicleId (bookings (run d0 ops) ! j) \<and>
        occupying (status (bookings (run d0 ops) ! i)) \<and>
        occupying (status (bookings (run d0 ops) ! j))"
  from h have "no_double_booking (bookings d0)" by simp
  with h have "no_double_booking (bookings (run d0 ops))" by (simp add: run_invariant)
  with ij have "\<not> clash (bookings (run d0 ops) ! i) (bookings (run d0 ops) ! j)"
    by (simp add: no_double_booking_nth)
  with ij show "\<not> doTimeRangesOverlap
            (startTime (bookings (run d0 ops) ! i)) (endTime (bookings (run d0 ops) ! i))
            (startTime (bookings (run d0 ops) ! j)) (endTime (bookings (run d0 ops) ! j))"
    by (simp add: clash_def)
qed

text \<open>
  A booking, an overlapping request that is refused, a move to in-progress, and a
  booking that starts when the first one ends: two occupying bookings of the truck,
  back to back.
\<close>

theorem no_double_booking_without_reactivation_witness:
  "bookings fleet = []
   \<and> reactivation_free fleet back_to_back_sequence
   \<and> length (bookings (run fleet back_to_back_sequence)) = 2
   \<and> vehicleId (bookings (run fleet back_to_back_sequence) ! 0) =
       vehicleId (bookings (run fleet back_to_back_sequence) ! 1)
   \<and> occupying (status (bookings (run fleet back_to_back_sequence) ! 0))
   \<and> occupying (status (bookings (run fleet back_to_back_sequence) ! 1))
   \<and> \<not> doTimeRangesOverlap
        (startTime (bookings (run fleet back_to_back_sequence) ! 0))
        (endTime (bookings (run fleet back_to_back_sequence) ! 0))
        (startTime (bookings (run fleet back_to_back_sequence) ! 1))
        (endTime (bookings (run fleet back_to_back_sequence) ! 1))"
proof -
  let ?bs = "bookings (run fleet back_to_back_sequence)"
  have h: "bookings fleet = [] \<and> reactivation_free fleet back_to_back_sequence"
    by code_simp
  have ij: "(0::nat) < 1 \<and> 1 < length ?bs \<and> vehicleId (?bs ! 0) = vehicleId (?bs ! 1) \<and>
        occupying (status (?bs ! 0)) \<and> occupying (status (?bs ! 1))"
    by code_simp
  have l: "length ?bs = 2" by code_simp
  from no_double_booking_without_reactivation[of fleet back_to_back_sequence,
      THEN mp, OF h, THEN spec, THEN spec, THEN mp, OF ij] h ij l
  show ?thesis by blast
qed

text \<open>
  Claim C2: of several booking requests for one vehicle with overlapping windows that
  are handled at the same time, exactly one succeeds and the others get the conflict
  error. With the two handlers interleaved so that both run their overlap query before
  either saves, both requests succeed and the ledger holds two confirmed bookings of
  the truck that overlap.
\<close>

theorem post_bookings_interleaved_double_books:
  "post_bookings_interleaved clock clock fleet first_request second_request =
     (Inr \<lparr>b_id = 3, vehicleId = 1, customerId = js ''customer-1'',
           fromPincode = js ''110001'', toPincode = js ''110003'',
           startTime = 1700086400000, endTime = 1700093600000,
           estimatedRideDurationHours = 2, status = Confirmed\<rparr>,
      Inr \<lparr>b_id = 4, vehicleId = 1, customerId = js ''customer-2'',
           fromPincode = js ''110001'', toPincode = js ''110002'',
           startTime = 1700088200000, endTime = 1700091800000,
           estimatedRideDurationHours = 1, status = Confirmed\<rparr>,
      fleet\<lparr>bookings :=
          [\<lparr>b_id = 3, vehicleId = 1, customerId = js ''customer-1'',
            fromPincode = js ''110001'', toPincode = js ''110003'',
            startTime = 1700086400000, endTime = 1700093600000,
            estimatedRideDurationHours = 2, status = Confirmed\<rparr>,
           \<lparr>b_id = 4, vehicleId = 1, customerId = js ''customer-2'',
            fromPincode = js ''110001'', toPincode = js ''110002'',
            startTime = 1700088200000, endTime = 1700091800000,
            estimatedRideDurationHours = 1, status = Confirmed\<rparr>],
        next_id := 5\<rparr>)
   \<and> doTimeRangesOverlap 1700086400000 1700093600000 1700088200000 1700091800000
   \<and> \<not> no_double_booking (bookings (snd (snd
        (post_bookings_interleaved clock clock fleet first_request second_request))))"
  by code_simp



text \<open>
  Claim C4. The availability search never changes the database. On a well-formed
  request (a positive capacity, two six-digit pincodes, a start time after the clock)
  whose window ends at a valid date, it succeeds, with the estimator's duration, and
  lists a vehicle exactly when the vehicle is in the directory, is active, has at
  least the requested capacity and has no booking with status confirmed or
  in-progress that overlaps the interval from the start to the start plus the
  duration; the list is empty, and the answer still a success, exactly when no
  vehicle qualifies.
\<close>

theorem get_vehicles_available_exact:
  "snd (get_vehicles_available now d q) = d
   \<and> (q_capacityRequired q = Parsed cap \<and> 0 < cap \<and>
      q_fromPincode q = Some f \<and> is_pincode f \<and>
      q_toPincode q = Some t \<and> is_pincode t \<and>
      q_startTime q = Parsed st \<and> now < st \<and>
      calculateRideDuration (Some f) (Some t) = Inr dur \<and>
      calculateEndTime st dur = Some e \<longrightarrow>
      (\<exists>res. get_vehicles_available now d q = (Inr res, d) \<and>
         sc_estimatedRideDurationHours res = dur \<and>
         (of_int e :: rat) = of_int st + dur * 3600000 \<and>
         (\<forall>v. v \<in> av_vehicle ` set (availableVehicles res) \<longleftrightarrow>
              v \<in> set (vehicles d) \<and> isActive v \<and> cap \<le> capacityKg v \<and>
              \<not> (\<exists>b. b \<in> set (bookings d) \<and> vehicleId b = v_id v \<and> occupying (status b) \<and>
                     doTimeRangesOverlap st e (startTime b) (endTime b))) \<and>
         (availableVehicles res = [] \<longleftrightarrow>
            \<not> (\<exists>v. v \<in> set (vehicles d) \<and> isActive v \<and> cap \<le> capacityKg v \<and>
              \<not> (\<exists>b. b \<in> set (bookings d) \<and> vehicleId b = v_id v \<and> occupying (status b) \<and>
                     doTimeRangesOverlap st e (startTime b) (endTime b))))))"
proof (intro conjI impI)
  show "snd (get_vehicles_available now d q) = d" by (rule get_vehicles_available_pure)
next
  assume h: "q_capacityRequired q = Parsed cap \<and> 0 < cap \<and>
      q_fromPincode q = Some f \<and> is_pincode f \<and>
      q_toPincode q = Some t \<and> is_pincode t \<and>
      q_startTime q = Parsed st \<and> now < st \<and>
      calculateRideDuration (Some f) (Some t) = Inr dur \<and>
      calculateEndTime st dur = Some e"
  let ?e = "e"
  let ?free = "\<lambda>v. filter (overlap_query (v_id v) st ?e) (bookings d) = []"
  let ?vs = "filter ?free (filter (\<lambda>v. capacityKg v \<ge> cap \<and> isActive v) (vehicles d))"
  let ?res = "\<lparr>availableVehicles =
            map (\<lambda>v. \<lparr>av_vehicle = v, av_estimatedRideDurationHours = dur,
                      av_from = f, av_to = t, av_startTime = st, av_endTime = ?e\<rparr>) ?vs,
          sc_capacityRequired = cap, sc_fromPincode = f, sc_toPincode = t,
          sc_startTime = st, sc_estimatedRideDurationHours = dur\<rparr>"
  from h have eq: "get_vehicles_available now d q = (Inr ?res, d)"
    using get_vehicles_available_well_formed[of q cap f t st now dur e d] by blast
  have free: "?free v \<longleftrightarrow>
      \<not> (\<exists>b. b \<in> set (bookings d) \<and> vehicleId b = v_id v \<and> occupying (status b) \<and>
             doTimeRangesOverlap st ?e (startTime b) (endTime b))" for v
    by (auto simp: filter_empty_conv overlap_query_half_open)
  have img: "av_vehicle ` set (availableVehicles ?res) = set ?vs"
    by (simp add: image_image)
  have mem: "v \<in> av_vehicle ` set (availableVehicles ?res) \<longleftrightarrow>
              v \<in> set (vehicles d) \<and> isActive v \<and> cap \<le> capacityKg v \<and>
              \<not> (\<exists>b. b \<in> set (bookings d) \<and> vehicleId b = v_id v \<and> occupying (status b) \<and>
                     doTimeRangesOverlap st ?e (startTime b) (endTime b))" for v
    unfolding img using free[of v] by auto
  have gen: "xs = [] \<longleftrightarrow> \<not> (\<exists>v. v \<in> g ` set xs)" for xs :: "'x list" and g :: "'x \<Rightarrow> 'y"
    by (cases xs) auto
  have empty: "availableVehicles ?res = [] \<longleftrightarrow>
      \<not> (\<exists>v. v \<in> set (vehicles d) \<and> isActive v \<and> cap \<le> capacityKg v \<and>
              \<not> (\<exists>b. b \<in> set (bookings d) \<and> vehicleId b = v_id v \<and> occupying (status b) \<and>
                     doTimeRangesOverlap st ?e (startTime b) (endTime b)))"
    unfolding gen[of "availableVehicles ?res" av_vehicle] mem ..
  from h have endt: "(of_int ?e :: rat) = of_int st + dur * 3600000"
    using calculateEndTime_exact(1) by blast
  have dur: "sc_estimatedRideDurationHours ?res = dur" by simp
  show "\<exists>res. get_vehicles_available now d q = (Inr res, d) \<and>
         sc_estimatedRideDurationHours res = dur \<and>
         (of_int e :: rat) = of_int st + dur * 3600000 \<and>
         (\<forall>v. v \<in> av_vehicle ` set (availableVehicles res) \<longleftrightarrow>
              v \<in> set (vehicles d) \<and> isActive v \<and> cap \<le> capacityKg v \<and>
              \<not> (\<exists>b. b \<in> set (bookings d) \<and> vehicleId b = v_id v \<and> occupying (status b) \<and>
                     doTimeRangesOverlap st e (startTime b) (endTime b))) \<and>
         (availableVehicles res = [] \<longleftrightarrow>
            \<not> (\<exists>v. v \<in> set (vehicles d) \<and> isActive v \<and> cap \<le> capacityKg v \<and>
              \<not> (\<exists>b. b \<in> set (bookings d) \<and> vehicleId b = v_id v \<and> occupying (status b) \<and>
                     doTimeRangesOverlap st e (startTime b) (endTime b))))"
    apply (rule exI[of _ ?res])
    apply (intro conjI allI)
        apply (rule eq)
       apply (rule dur)
      apply (rule endt)
     apply (rule mem)
    apply (rule empty)
    done
qed


text \<open>
  The truck is booked for two hours from tomorrow. A half-hour search one hour into
  that booking finds nothing and succeeds; a search at the end of the booking finds
  the truck, and not the deactivated van.
\<close>

theorem get_vehicles_available_exact_witness:
  "(\<exists>res. get_vehicles_available clock (run fleet [PostBooking clock clock first_request])
            (short_ride_at (tomorrow + 60 * 60 * 1000)) =
          (Inr res, run fleet [PostBooking clock clock first_request]) \<and>
          availableVehicles res = [])
   \<and> (\<exists>res. get_vehicles_available clock (run fleet [PostBooking clock clock first_request])
            (short_ride_at (tomorrow + 2 * 60 * 60 * 1000)) =
          (Inr res, run fleet [PostBooking clock clock first_request]) \<and>
          truck \<in> av_vehicle ` set (availableVehicles res) \<and>
          retired_van \<notin> av_vehicle ` set (availableVehicles res))"
proof -
  let ?d = "run fleet [PostBooking clock clock first_request]"
  let ?s1 = "tomorrow + 60 * 60 * 1000"
  let ?s2 = "tomorrow + 2 * 60 * 60 * 1000"
  have h1: "q_capacityRequired (short_ride_at ?s1) = Parsed 500 \<and> (0::rat) < 500 \<and>
      q_fromPincode (short_ride_at ?s1) = Some (js ''110001'') \<and> is_pincode (js ''110001'') \<and>
      q_toPincode (short_ride_at ?s1) = Some (js ''110001'') \<and> is_pincode (js ''110001'') \<and>
      q_startTime (short_ride_at ?s1) = Parsed ?s1 \<and> clock < ?s1 \<and>
      calculateRideDuration (Some (js ''110001'')) (Some (js ''110001'')) = Inr (1 / 2) \<and>
      calculateEndTime ?s1 (1 / 2) = Some (?s1 + 30 * 60 * 1000)"
    by code_simp
  have h2: "q_capacityRequired (short_ride_at ?s2) = Parsed 500 \<and> (0::rat) < 500 \<and>
      q_fromPincode (short_ride_at ?s2) = Some (js ''110001'') \<and> is_pincode (js ''110001'') \<and>
      q_toPincode (short_ride_at ?s2) = Some (js ''110001'') \<and> is_pincode (js ''110001'') \<and>
      q_startTime (short_ride_at ?s2) = Parsed ?s2 \<and> clock < ?s2 \<and>
      calculateRideDuration (Some (js ''110001'')) (Some (js ''110001'')) = Inr (1 / 2) \<and>
      calculateEndTime ?s2 (1 / 2) = Some (?s2 + 30 * 60 * 1000)"
    by code_simp
  have none: "\<not> (\<exists>v \<in> set (vehicles ?d). isActive v \<and> 500 \<le> capacityKg v \<and>
      \<not> (\<exists>b \<in> set (bookings ?d). vehicleId b = v_id v \<and> occupying (status b) \<and>
        doTimeRangesOverlap ?s1 (?s1 + 30 * 60 * 1000) (startTime b) (endTime b)))"
    by code_simp
  have tr: "truck \<in> set (vehicles ?d) \<and> isActive truck \<and> 500 \<le> capacityKg truck \<and>
      \<not> (\<exists>b \<in> set (bookings ?d). vehicleId b = v_id truck \<and> occupying (status b) \<and>
        doTimeRangesOverlap ?s2 (?s2 + 30 * 60 * 1000) (startTime b) (endTime b))"
    by code_simp
  have van: "\<not> isActive retired_van" by code_simp
  from get_vehicles_available_exact[of clock ?d "short_ride_at ?s1" 500 "js ''110001''" "js ''110001''" ?s1 "1 / 2"
      "?s1 + 30 * 60 * 1000",
      THEN conjunct2, THEN mp, OF h1]
  obtain r1 where r1: "get_vehicles_available clock ?d (short_ride_at ?s1) = (Inr r1, ?d)"
    "availableVehicles r1 = [] \<longleftrightarrow>
       \<not> (\<exists>v. v \<in> set (vehicles ?d) \<and> isActive v \<and> 500 \<le> capacityKg v \<and>
         \<not> (\<exists>b. b \<in> set (bookings ?d) \<and> vehicleId b = v_id v \<and> occupying (status b) \<and>
           doTimeRangesOverlap ?s1 (?s1 + 30 * 60 * 1000) (startTime b) (endTime b)))"
    by blast
  from r1(2) none have e1: "availableVehicles r1 = []" unfolding Bex_def by blast
  from get_vehicles_available_exact[of clock ?d "short_ride_at ?s2" 500 "js ''110001''" "js ''110001''" ?s2 "1 / 2"
      "?s2 + 30 * 60 * 1000",
      THEN conjunct2, THEN mp, OF h2]
  obtain r2 where r2: "get_vehicles_available clock ?d (short_ride_at ?s2) = (Inr r2, ?d)"
    "\<And>v. v \<in> av_vehicle ` set (availableVehicles r2) \<longleftrightarrow>
       v \<in> set (vehicles ?d) \<and> isActive v \<and> 500 \<le> capacityKg v \<and>
         \<not> (\<exists>b. b \<in> set (bookings ?d) \<and> vehicleId b = v_id v \<and> occupying (status b) \<and>
           doTimeRangesOverlap ?s2 (?s2 + 30 * 60 * 1000) (startTime b) (endTime b))"
    by blast
  from r2(2)[of truck] tr have e2: "truck \<in> av_vehicle ` set (availableVehicles r2)"
    unfolding Bex_def by blast
  from r2(2)[of retired_van] van have e3: "retired_van \<notin> av_vehicle ` set (availableVehicles r2)"
    by blast
  from r1(1) e1 r2(1) e2 e3 show ?thesis by blast
qed

text \<open>
  Claim C5. The overlap test of two time ranges is true exactly when each range
  starts before the other one ends; a range that ends at an instant and a range that
  starts at that instant do not overlap, whichever of the two is given first.
\<close>

theorem doTimeRangesOverlap_half_open:
  "doTimeRangesOverlap s1 e1 s2 e2 = (s1 < e2 \<and> s2 < e1)
   \<and> \<not> doTimeRangesOverlap s t t e
   \<and> \<not> doTimeRangesOverlap t e s t"
  by (simp add: doTimeRangesOverlap_def)






text \<open>
  Claim C8, as stated: adding a vehicle fails with a validation error exactly when
  the capacity is not positive, the tyre count is outside 2 to 18 or the name is
  empty, and succeeds on every other input. The schema asks for a capacity of at
  least 1 kg: a vehicle with a name, four tyres and a capacity of half a kilogram
  is refused.
\<close>

theorem post_vehicles_counterexample:
  "js ''Van'' \<noteq> [] \<and> (0::rat) < 1 / 2 \<and> (2::rat) \<le> 4 \<and> (4::rat) \<le> 18 \<and>
   post_vehicles fleet (Some (JStr (js ''Van''))) (Some (JNum (1 / 2))) (Some (JNum 4)) =
     (Inl (ValidationError [''Capacity must be at least 1 kg'']), fleet)"
  by code_simp

text \<open>
  Claim C8, amended. For a name that is a string and a capacity and a tyre count that
  are numbers, adding a vehicle fails with a validation error, and changes nothing,
  exactly when the name is empty once trimmed or longer than 100 characters, the
  capacity is below 1 or above 50000, or the tyre count is outside 2 to 18; on every
  other such input it stores and returns the vehicle, active, under a fresh
  identifier and with the trimmed name.
\<close>

theorem post_vehicles_validation:
  "(trim n = [] \<or> 100 < length (trim n) \<or> c < 1 \<or> 50000 < c \<or> t < 2 \<or> 18 < t \<longrightarrow>
      (\<exists>ms. post_vehicles d (Some (JStr n)) (Some (JNum c)) (Some (JNum t)) =
         (Inl (ValidationError ms), d)))
   \<and> (trim n \<noteq> [] \<and> length (trim n) \<le> 100 \<and> 1 \<le> c \<and> c \<le> 50000 \<and> 2 \<le> t \<and> t \<le> 18 \<longrightarrow>
      post_vehicles d (Some (JStr n)) (Some (JNum c)) (Some (JNum t)) =
        (Inr \<lparr>v_id = next_id d, name = trim n, capacityKg = c, tyres = t, isActive = True\<rparr>,
         d\<lparr>vehicles := vehicles d @
              [\<lparr>v_id = next_id d, name = trim n, capacityKg = c, tyres = t, isActive = True\<rparr>],
           next_id := Suc (next_id d)\<rparr>))"
proof (intro conjI impI)
  let ?v = "\<lparr>v_id = next_id d, name = trim n, capacityKg = c, tyres = t, isActive = True\<rparr>"
  have save: "save_vehicle d (trim n) c t =
      (if vehicle_validators ?v = []
       then (Inr ?v, d\<lparr>vehicles := vehicles d @ [?v], next_id := Suc (next_id d)\<rparr>)
       else (Inl (ValidationError (vehicle_validators ?v)), d))"
    by (simp add: save_vehicle_def trim_idem Let_def)
  {
    assume bad: "trim n = [] \<or> 100 < length (trim n) \<or> c < 1 \<or> 50000 < c \<or> t < 2 \<or> 18 < t"
    show "\<exists>ms. post_vehicles d (Some (JStr n)) (Some (JNum c)) (Some (JNum t)) =
         (Inl (ValidationError ms), d)"
    proof (cases "n = [] \<or> c = 0 \<or> t = 0")
      case True
      then show ?thesis by auto
    next
      case False
      from bad have "vehicle_validators ?v \<noteq> []"
        by (auto simp: vehicle_validators_empty)
      with False save show ?thesis by simp
    qed
  }
  {
    assume good: "trim n \<noteq> [] \<and> length (trim n) \<le> 100 \<and> 1 \<le> c \<and> c \<le> 50000 \<and> 2 \<le> t \<and> t \<le> 18"
    then have "n \<noteq> []" "c \<noteq> 0" "t \<noteq> 0" by (auto simp: trim_Nil)
    moreover from good have "vehicle_validators ?v = []"
      by (simp add: vehicle_validators_empty)
    ultimately show "post_vehicles d (Some (JStr n)) (Some (JNum c)) (Some (JNum t)) =
        (Inr ?v, d\<lparr>vehicles := vehicles d @ [?v], next_id := Suc (next_id d)\<rparr>)"
      using save by simp
  }
qed

text \<open>
  A vehicle that is stored, with the spaces around its name removed, and five that
  are refused: a name of spaces, a name of a no-break space and an ideographic space
  (U+00A0, U+3000), a capacity above the maximum, twenty tyres.
\<close>

theorem post_vehicles_validation_witness:
  "post_vehicles fleet (Some (JStr (js '' Tata Ace ''))) (Some (JNum 1000)) (Some (JNum 4)) =
     (Inr \<lparr>v_id = 3, name = js ''Tata Ace'', capacityKg = 1000, tyres = 4, isActive = True\<rparr>,
      fleet\<lparr>vehicles := [truck, retired_van,
          \<lparr>v_id = 3, name = js ''Tata Ace'', capacityKg = 1000, tyres = 4, isActive = True\<rparr>],
        next_id := 4\<rparr>)
   \<and> (\<exists>ms. post_vehicles fleet (Some (JStr (js ''   ''))) (Some (JNum 1000)) (Some (JNum 4)) =
         (Inl (ValidationError ms), fleet))
   \<and> (\<exists>ms. post_vehicles fleet (Some (JStr [160, 12288])) (Some (JNum 1000)) (Some (JNum 4)) =
         (Inl (ValidationError ms), fleet))
   \<and> (\<exists>ms. post_vehicles fleet (Some (JStr (js ''Tata Ace''))) (Some (JNum 60000)) (Some (JNum 4)) =
         (Inl (ValidationError ms), fleet))
   \<and> (\<exists>ms. post_vehicles fleet (Some (JStr (js ''Tata Ace''))) (Some (JNum 1000)) (Some (JNum 20)) =
         (Inl (ValidationError ms), fleet))"
proof -
  have g: "trim (js '' Tata Ace '') \<noteq> [] \<and> length (trim (js '' Tata Ace '')) \<le> 100 \<and>
      (1::rat) \<le> 1000 \<and> (1000::rat) \<le> 50000 \<and> (2::rat) \<le> 4 \<and> (4::rat) \<le> 18"
    by code_simp
  have b1: "trim (js ''   '') = [] \<or> 100 < length (trim (js ''   '')) \<or> (1000::rat) < 1 \<or>
      (50000::rat) < 1000 \<or> (4::rat) < 2 \<or> (18::rat) < 4"
    by code_simp
  have b2: "trim [160, 12288] = [] \<or> 100 < length (trim [160, 12288]) \<or> (1000::rat) < 1 \<or>
      (50000::rat) < 1000 \<or> (4::rat) < 2 \<or> (18::rat) < 4"
    by code_simp
  have b3: "trim (js ''Tata Ace'') = [] \<or> 100 < length (trim (js ''Tata Ace'')) \<or>
      (60000::rat) < 1 \<or> (50000::rat) < 60000 \<or> (4::rat) < 2 \<or> (18::rat) < 4"
    by simp
  have b4: "trim (js ''Tata Ace'') = [] \<or> 100 < length (trim (js ''Tata Ace'')) \<or>
      (1000::rat) < 1 \<or> (50000::rat) < 1000 \<or> (20::rat) < 2 \<or> (18::rat) < 20"
    by simp
  have e: "trim (js '' Tata Ace '') = js ''Tata Ace'' \<and> next_id fleet = 3 \<and>
     fleet\<lparr>vehicles := vehicles fleet @
              [\<lparr>v_id = 3, name = js ''Tata Ace'', capacityKg = 1000, tyres = 4, isActive = True\<rparr>],
           next_id := Suc 3\<rparr> = fleet\<lparr>vehicles := [truck, retired_van,
          \<lparr>v_id = 3, name = js ''Tata Ace'', capacityKg = 1000, tyres = 4, isActive = True\<rparr>],
        next_id := 4\<rparr>"
    by code_simp
  from post_vehicles_validation[of "js '' Tata Ace ''" 1000 4 fleet, THEN conjunct2, THEN mp, OF g]
    post_vehicles_validation[of "js ''   ''" 1000 4 fleet, THEN conjunct1, THEN mp, OF b1]
    post_vehicles_validation[of "[160, 12288]" 1000 4 fleet, THEN conjunct1, THEN mp, OF b2]
    post_vehicles_validation[of "js ''Tata Ace''" 60000 4 fleet, THEN conjunct1, THEN mp, OF b3]
    post_vehicles_validation[of "js ''Tata Ace''" 1000 20 fleet, THEN conjunct1, THEN mp, OF b4]
    e
  show ?thesis by simp
qed

text \<open>
  Claim C9. On two strings of exactly six digits the duration estimator returns a
  duration, the one its formula gives (so it depends on nothing but its arguments),
  and that duration is at least half an hour, hence positive.
\<close>

theorem calculateRideDuration_floor:
  "is_pincode f \<and> is_pincode t \<longrightarrow>
     calculateRideDuration (Some f) (Some t) =
       Inr (max (of_int (\<bar>parseInt t - parseInt f\<bar> mod 24)) (1 / 2))
     \<and> (\<exists>dur. calculateRideDuration (Some f) (Some t) = Inr dur \<and> 1 / 2 \<le> dur \<and> 0 < dur)"
proof
  assume h: "is_pincode f \<and> is_pincode t"
  then have eq: "calculateRideDuration (Some f) (Some t) =
       Inr (max (of_int (\<bar>parseInt t - parseInt f\<bar> mod 24)) (1 / 2))"
    by (simp only: calculateRideDuration_pincodes)
  from duration_at_least_half[OF eq]
  have "(1 / 2 :: rat) \<le> max (of_int (\<bar>parseInt t - parseInt f\<bar> mod 24)) (1 / 2)" .
  moreover from this
  have "(0::rat) < max (of_int (\<bar>parseInt t - parseInt f\<bar> mod 24)) (1 / 2)"
    by (rule less_le_trans[rotated]) simp
  ultimately show "calculateRideDuration (Some f) (Some t) =
       Inr (max (of_int (\<bar>parseInt t - parseInt f\<bar> mod 24)) (1 / 2))
     \<and> (\<exists>dur. calculateRideDuration (Some f) (Some t) = Inr dur \<and> 1 / 2 \<le> dur \<and> 0 < dur)"
    using eq by blast
qed

text \<open>
  Two pincodes that differ by 24: the remainder is zero and the floor of half an
  hour applies.
\<close>

theorem calculateRideDuration_floor_witness:
  "is_pincode (js ''110001'') \<and> is_pincode (js ''110025'') \<and>
   calculateRideDuration (Some (js ''110001'')) (Some (js ''110025'')) = Inr (1 / 2) \<and>
   (\<exists>dur. calculateRideDuration (Some (js ''110001'')) (Some (js ''110025'')) = Inr dur \<and> 1 / 2 \<le> dur \<and> 0 < dur)"
proof -
  have h: "is_pincode (js ''110001'') \<and> is_pincode (js ''110025'')" by code_simp
  have v: "max (of_int (\<bar>parseInt (js ''110025'') - parseInt (js ''110001'')\<bar> mod 24)) (1 / 2) = (1 / 2 :: rat)"
    by code_simp
  from calculateRideDuration_floor[of "js ''110001''" "js ''110025''", THEN mp, OF h]
  show ?thesis unfolding v using h by blast
qed

text \<open>
  Claim C10. When a pincode is missing or is not exactly six digits the duration
  estimator throws instead of returning a duration. Neither handler can reach that
  branch: each handler calls the estimator only once its checks have passed, a
  request that fails them being answered with that failure, and whenever the checks
  have passed the estimator, on the pincodes of the request, returns a duration.
\<close>

theorem calculateRideDuration_throw_unreachable:
  "(\<not> (\<exists>f t. a = Some f \<and> b = Some t \<and> is_pincode f \<and> is_pincode t) \<longrightarrow>
      (\<exists>msg. calculateRideDuration a b = Inl msg))
   \<and> (validate_booking_request now d req = Inl err \<longrightarrow>
        post_bookings now now_save d req = (Inl err, d))
   \<and> (validate_booking_request now d req = Inr x \<longrightarrow>
        (\<exists>dur. calculateRideDuration (req_fromPincode req) (req_toPincode req) = Inr dur))
   \<and> (validate_availability_request now q = Inl err \<longrightarrow>
        get_vehicles_available now d q = (Inl err, d))
   \<and> (validate_availability_request now q = Inr y \<longrightarrow>
        (\<exists>dur. calculateRideDuration (q_fromPincode q) (q_toPincode q) = Inr dur))"
proof (intro conjI impI)
  assume "\<not> (\<exists>f t. a = Some f \<and> b = Some t \<and> is_pincode f \<and> is_pincode t)"
  then show "\<exists>msg. calculateRideDuration a b = Inl msg"
    by (rule calculateRideDuration_throws)
next
  assume "validate_booking_request now d req = Inl err"
  then have "check_booking now d req = Inl err" by (rule validate_failure_check_booking)
  then show "post_bookings now now_save d req = (Inl err, d)"
    by (rule post_bookings_of_check_failure)
next
  assume "validate_booking_request now d req = Inr x"
  then show "\<exists>dur. calculateRideDuration (req_fromPincode req) (req_toPincode req) = Inr dur"
    by (rule booking_estimator_returns)
next
  assume "validate_availability_request now q = Inl err"
  then show "get_vehicles_available now d q = (Inl err, d)"
    by (simp add: get_vehicles_available_def)
next
  assume "validate_availability_request now q = Inr y"
  then show "\<exists>dur. calculateRideDuration (q_fromPincode q) (q_toPincode q) = Inr dur"
    by (rule availability_estimator_returns)
qed

text \<open>
  A pincode of five digits makes the estimator throw; a booking request and a search
  with that pincode are answered by the checks; the first request and a search for
  tomorrow pass the checks, and the estimator returns on their pincodes.
\<close>

theorem calculateRideDuration_throw_unreachable_witness:
  "\<not> is_pincode (js ''12345'')
   \<and> (\<exists>msg. calculateRideDuration (Some (js ''12345'')) (Some (js ''110001'')) = Inl msg)
   \<and> post_bookings clock clock fleet (first_request\<lparr>req_fromPincode := Some (js ''12345'')\<rparr>)
       = (Inl (ValidationError [''Pincodes must be exactly 6 digits'']), fleet)
   \<and> get_vehicles_available clock fleet
         ((short_ride_at tomorrow)\<lparr>q_fromPincode := Some (js ''12345'')\<rparr>)
       = (Inl (ValidationError [''Pincodes must be exactly 6 digits'']), fleet)
   \<and> validate_booking_request clock fleet first_request = Inr (1, tomorrow)
   \<and> (\<exists>dur. calculateRideDuration (req_fromPincode first_request)
         (req_toPincode first_request) = Inr dur)
   \<and> validate_availability_request clock (short_ride_at tomorrow) = Inr (500, tomorrow)
   \<and> (\<exists>dur. calculateRideDuration (q_fromPincode (short_ride_at tomorrow))
         (q_toPincode (short_ride_at tomorrow)) = Inr dur)"
proof -
  let ?r = "first_request\<lparr>req_fromPincode := Some (js ''12345'')\<rparr>"
  let ?q = "(short_ride_at tomorrow)\<lparr>q_fromPincode := Some (js ''12345'')\<rparr>"
  have p: "\<not> is_pincode (js ''12345'')" by code_simp
  then have n: "\<not> (\<exists>f t. Some (js ''12345'') = Some f \<and> Some (js ''110001'') = Some t \<and>
      is_pincode f \<and> is_pincode t)"
    by simp
  have v1: "validate_booking_request clock fleet ?r =
      Inl (ValidationError [''Pincodes must be exactly 6 digits''])"
    by code_simp
  have v2: "validate_availability_request clock ?q =
      Inl (ValidationError [''Pincodes must be exactly 6 digits''])"
    by code_simp
  have v3: "validate_booking_request clock fleet first_request = Inr (1, tomorrow)"
    by code_simp
  have v4: "validate_availability_request clock (short_ride_at tomorrow) = Inr (500, tomorrow)"
    by code_simp
  note T = calculateRideDuration_throw_unreachable
  from T[where a = "Some (js ''12345'')" and b = "Some (js ''110001'')", THEN conjunct1, THEN mp, OF n]
    T[where now = clock and d = fleet and req = ?r and now_save = clock,
      THEN conjunct2, THEN conjunct1, THEN mp, OF v1]
    T[where now = clock and d = fleet and q = ?q,
      THEN conjunct2, THEN conjunct2, THEN conjunct2, THEN conjunct1, THEN mp, OF v2]
    T[where now = clock and d = fleet and req = first_request,
      THEN conjunct2, THEN conjunct2, THEN conjunct1, THEN mp, OF v3]
    T[where now = clock and q = "short_ride_at tomorrow",
      THEN conjunct2, THEN conjunct2, THEN conjunct2, THEN conjunct2, THEN mp, OF v4]
    p v3 v4
  show ?thesis by blast
qed

end
